theory Spec2Isabelle
  imports Complex_Main
begin

section \<open>Python values, exceptions and containers\<close>

text \<open>
  The retrieval core is the class \<open>ChromaDB\<close> of \<open>app/vectorstore/chroma.py\<close>.
  Every method is embedded as a function that returns either the exception it raises
  (\<open>Inl\<close>) or its value (\<open>Inr\<close>).
\<close>

datatype exn =
    IndexError
  | KeyError string
  | AttributeError string
  | BackendError string

text \<open>
  The values that occur inside a query result: a document or an id is a \<open>str\<close>, a
  distance is a number, a metadata entry is a dictionary (kept opaque).
\<close>

datatype ('d, 'm) pyval = Str string | Num 'd | Dict 'm

text \<open>\<open>xs[0]\<close>: the first element, \<open>IndexError\<close> on an empty list.\<close>

definition getitem0 :: "'a list \<Rightarrow> exn + 'a" where
  "getitem0 xs = (case xs of [] \<Rightarrow> Inl IndexError | x # _ \<Rightarrow> Inr x)"

text \<open>\<open>d[key]\<close> on a dictionary: \<open>KeyError\<close> when the key is absent.\<close>

definition dict_getitem :: "(string \<rightharpoonup> 'v) \<Rightarrow> string \<Rightarrow> exn + 'v" where
  "dict_getitem d key = (case d key of None \<Rightarrow> Inl (KeyError key) | Some v \<Rightarrow> Inr v)"

text \<open>
  \<open>data[i]\<close> on the tuple \<open>(doc, distance, metadata, ids)\<close> that the filter builds:
  \<open>IndexError\<close> beyond the fourth component.
\<close>

fun tuple_getitem :: "string \<times> 'd \<times> 'm \<times> string \<Rightarrow> nat \<Rightarrow> exn + ('d, 'm) pyval" where
  "tuple_getitem (doc, distance, metadata, ids) i =
     (if i = 0 then Inr (Str doc)
      else if i = 1 then Inr (Num distance)
      else if i = 2 then Inr (Dict metadata)
      else if i = 3 then Inr (Str ids)
      else Inl IndexError)"

text \<open>A list comprehension whose element expression may raise: the first exception wins.\<close>

fun list_comp :: "('a \<Rightarrow> exn + 'b) \<Rightarrow> 'a list \<Rightarrow> exn + 'b list" where
  "list_comp f [] = Inr []"
| "list_comp f (x # xs) =
     (case f x of
        Inl e \<Rightarrow> Inl e
      | Inr y \<Rightarrow> (case list_comp f xs of Inl e \<Rightarrow> Inl e | Inr ys \<Rightarrow> Inr (y # ys)))"

text \<open>A dictionary built from its items in order: a later item overrides an earlier one.\<close>

definition dict_of :: "(string \<times> 'v) list \<Rightarrow> (string \<rightharpoonup> 'v)" where
  "dict_of items = foldl (\<lambda>d (key, v). d(key \<mapsto> v)) Map.empty items"

text \<open>Python's \<open>zip\<close> of four sequences stops at the shortest.\<close>

definition zip4 :: "'a list \<Rightarrow> 'b list \<Rightarrow> 'c list \<Rightarrow> 'e list \<Rightarrow> ('a \<times> 'b \<times> 'c \<times> 'e) list" where
  "zip4 as bs cs es = zip as (zip bs (zip cs es))"

section \<open>The query result of the vector backend\<close>

text \<open>
  \<open>chromadb.QueryResult\<close>: four batch-shaped fields, one inner list per query text.
\<close>

record ('d, 'm) query_result =
  qr_documents :: "string list list"
  qr_distances :: "'d list list"
  qr_metadatas :: "'m list list"
  qr_ids :: "string list list"

section \<open>The distance filter\<close>

text \<open>
  \<open>ChromaDB._filter_docs_based_on_distance\<close> (chroma.py, lines 134-161). The four
  subscripts \<open>[0]\<close> are evaluated in the order of the arguments of \<open>zip\<close>; the result is
  the dictionary of the comprehension over
  \<open>enumerate(["documents", "distances", "metadatas", "ids"])\<close>.
\<close>

definition filter_docs_based_on_distance ::
  "('d::ord, 'm) query_result \<Rightarrow> 'd \<Rightarrow> exn + (string \<rightharpoonup> ('d, 'm) pyval list list)" where
  "filter_docs_based_on_distance documents threshold =
     (case getitem0 (qr_documents documents) of Inl e \<Rightarrow> Inl e | Inr docs \<Rightarrow>
     (case getitem0 (qr_distances documents) of Inl e \<Rightarrow> Inl e | Inr dists \<Rightarrow>
     (case getitem0 (qr_metadatas documents) of Inl e \<Rightarrow> Inl e | Inr metas \<Rightarrow>
     (case getitem0 (qr_ids documents) of Inl e \<Rightarrow> Inl e | Inr idents \<Rightarrow>
        (let filtered_data =
               filter (\<lambda>(doc, distance, metadata, ids). distance < threshold)
                 (zip4 docs dists metas idents)
         in (case list_comp
                   (\<lambda>(i, key).
                      (case list_comp (\<lambda>data. tuple_getitem data i) filtered_data of
                         Inl e \<Rightarrow> Inl e
                       | Inr column \<Rightarrow> Inr (key, [column])))
                   (enumerate 0 [''documents'', ''distances'', ''metadatas'', ''ids''])
             of Inl e \<Rightarrow> Inl e | Inr items \<Rightarrow> Inr (dict_of items)))))))"

text \<open>
  The indices of the candidates that the specification retains: those whose distance is
  strictly below the threshold, in increasing order. Distances are only ever compared
  by \<open><\<close>; the theorems below ask of it no more than that it is the strict part of a
  preorder, as it is on numbers.
\<close>

definition retained :: "('d::ord) list \<Rightarrow> 'd \<Rightarrow> nat list" where
  "retained dists t = filter (\<lambda>i. dists ! i < t) [0..<length dists]"

section \<open>Settings\<close>

text \<open>
  \<open>chromadb.config.Settings\<close>, with the fields the constructor reads or writes. A
  settings object is always truthy, so \<open>if client_settings:\<close> tests for \<open>None\<close>.
\<close>

record chroma_settings =
  is_persistent :: bool
  anonymized_telemetry :: bool
  persist_directory :: string

text \<open>
  \<open>app.config.Settings\<close> (config.py, lines 9-17) declares exactly two fields. Reading
  any other attribute of the global \<open>settings\<close> object raises \<open>AttributeError\<close>.
\<close>

record app_settings =
  sqlalchemy_database_url :: string
  upload_dir :: string

definition settings_getattr :: "app_settings \<Rightarrow> string \<Rightarrow> exn + string" where
  "settings_getattr settings name =
     (if name = ''sqlalchemy_database_url'' then Inr (sqlalchemy_database_url settings)
      else if name = ''upload_dir'' then Inr (upload_dir settings)
      else Inl (AttributeError name))"

text \<open>
  \<open>a or b\<close> on optional values: \<open>None\<close>, the empty string and \<open>0\<close> are falsy, a
  callable is truthy.
\<close>

fun str_or :: "string option \<Rightarrow> string \<Rightarrow> string" where
  "str_or None b = b"
| "str_or (Some a) b = (if a \<noteq> [] then a else b)"

fun int_or :: "int option \<Rightarrow> int \<Rightarrow> int" where
  "int_or None b = b"
| "int_or (Some a) b = (if a \<noteq> 0 then a else b)"

fun callable_or :: "'f option \<Rightarrow> 'f \<Rightarrow> 'f" where
  "callable_or None b = b"
| "callable_or (Some a) b = a"

section \<open>The vector backend\<close>

text \<open>
  The backend (the \<open>chromadb\<close> package) and the random source of \<open>uuid.uuid4\<close> are
  outside the repository: they are parameters. Each operation reads and writes an
  external state \<open>'b\<close> and either raises or returns. A record returned by
  \<open>collection.get\<close> is a dictionary from field names to strings.
\<close>

record ('b, 'cl, 'c, 'd, 'm, 'f) chromadb =
  chromadb_Client :: "chroma_settings \<Rightarrow> 'b \<Rightarrow> (exn + 'cl) \<times> 'b"
  get_or_create_collection :: "'cl \<Rightarrow> string \<Rightarrow> 'f \<Rightarrow> 'b \<Rightarrow> (exn + 'c) \<times> 'b"
  collection_add :: "'c \<Rightarrow> string list \<Rightarrow> 'm list option \<Rightarrow> string list \<Rightarrow> 'b \<Rightarrow> (exn + unit) \<times> 'b"
  collection_get :: "'c \<Rightarrow> 'm \<Rightarrow> 'b \<Rightarrow> (exn + (string \<rightharpoonup> string) list) \<times> 'b"
  collection_delete :: "'c \<Rightarrow> string list option \<Rightarrow> 'b \<Rightarrow> (exn + unit) \<times> 'b"
  collection_query :: "'c \<Rightarrow> string \<Rightarrow> int \<Rightarrow> string list \<Rightarrow> 'b \<Rightarrow> (exn + ('d, 'm) query_result) \<times> 'b"
  uuid4 :: "'b \<Rightarrow> string \<times> 'b"
  DEFAULT_EMBEDDING_FUNCTION :: 'f
  default_persist_directory :: string

text \<open>The backend calls a method issues are recorded, oldest first.\<close>

datatype ('cl, 'c, 'm, 'f) call =
    Client_call chroma_settings
  | Get_or_create_collection_call 'cl string 'f
  | Add_call 'c "string list" "'m list option" "string list"
  | Get_call 'c 'm
  | Delete_call 'c "string list option"
  | Query_call 'c string int "string list"

record ('b, 'cl, 'c, 'm, 'f) world =
  backend :: 'b
  calls :: "('cl, 'c, 'm, 'f) call list"

definition invoke ::
  "('cl, 'c, 'm, 'f) call \<Rightarrow> ('b \<Rightarrow> (exn + 'r) \<times> 'b) \<Rightarrow> ('b, 'cl, 'c, 'm, 'f) world
     \<Rightarrow> (exn + 'r) \<times> ('b, 'cl, 'c, 'm, 'f) world" where
  "invoke c f w =
     (case f (backend w) of (r, b) \<Rightarrow> (r, \<lparr>backend = b, calls = calls w @ [c]\<rparr>))"

section \<open>The document store\<close>

text \<open>The attributes of a \<open>ChromaDB\<close> instance (\<open>self._max_samples\<close> and so on).\<close>

record ('cl, 'c, 'd, 'f) ChromaDB =
  self_max_samples :: int
  self_similarity_threshold :: 'd
  self_client_settings :: chroma_settings
  self_client :: 'cl
  self_persist_directory :: string
  self_embedding_function :: 'f
  self_docs_collection :: 'c

text \<open>\<open>config.Settings(is_persistent=True, anonymized_telemetry=False)\<close>.\<close>

definition config_Settings ::
  "('b, 'cl, 'c, 'd, 'm, 'f) chromadb \<Rightarrow> bool \<Rightarrow> bool \<Rightarrow> chroma_settings" where
  "config_Settings lib persistent telemetry =
     \<lparr>is_persistent = persistent, anonymized_telemetry = telemetry,
      persist_directory = default_persist_directory lib\<rparr>"

text \<open>
  \<open>ChromaDB.__init__\<close>, lines 35-52: the client settings the constructor resolves.
  The caller's settings object, when given, is updated in place and used.
\<close>

definition init_client_settings ::
  "('b, 'cl, 'c, 'd, 'm, 'f) chromadb \<Rightarrow> app_settings \<Rightarrow> string option \<Rightarrow> chroma_settings option
     \<Rightarrow> exn + chroma_settings" where
  "init_client_settings lib settings persist_path client_settings =
     (case client_settings of
        Some given \<Rightarrow>
          Inr (given\<lparr>persist_directory := str_or persist_path (persist_directory given)\<rparr>)
      | None \<Rightarrow>
          (let use_default =
                 (case settings_getattr settings ''chromadb_url'' of
                    Inl e \<Rightarrow> Inl e
                  | Inr url \<Rightarrow>
                      Inr ((config_Settings lib True False)\<lparr>persist_directory := url\<rparr>))
           in (case persist_path of
                 None \<Rightarrow> use_default
               | Some path \<Rightarrow>
                   (if path \<noteq> []
                    then Inr ((config_Settings lib True False)\<lparr>persist_directory := path\<rparr>)
                    else use_default))))"

text \<open>
  \<open>ChromaDB.__init__\<close>, lines 21-62. An argument left out is \<open>None\<close>; the defaults of
  the signature are \<open>"bamboo-etl"\<close>, \<open>3\<close> and \<open>1.5\<close>.
\<close>

definition ChromaDB_init ::
  "('b, 'cl, 'c, 'd, 'm, 'f) chromadb \<Rightarrow> app_settings \<Rightarrow> string option \<Rightarrow> 'f option \<Rightarrow> string option
     \<Rightarrow> chroma_settings option \<Rightarrow> int option \<Rightarrow> ('d::{inverse,numeral}) option
     \<Rightarrow> ('b, 'cl, 'c, 'm, 'f) world
     \<Rightarrow> (exn + ('cl, 'c, 'd, 'f) ChromaDB) \<times> ('b, 'cl, 'c, 'm, 'f) world" where
  "ChromaDB_init lib settings collection_name embedding_function persist_path client_settings
       max_samples similary_threshold w =
     (let name = (case collection_name of None \<Rightarrow> ''bamboo-etl'' | Some n \<Rightarrow> n);
          samples = (case max_samples of None \<Rightarrow> 3 | Some n \<Rightarrow> n);
          threshold = (case similary_threshold of None \<Rightarrow> 1.5 | Some t \<Rightarrow> t)
      in (case init_client_settings lib settings persist_path client_settings of
            Inl e \<Rightarrow> (Inl e, w)
          | Inr resolved \<Rightarrow>
              (case invoke (Client_call resolved) (chromadb_Client lib resolved) w of
                 (Inl e, w1) \<Rightarrow> (Inl e, w1)
               | (Inr client, w1) \<Rightarrow>
                   (let ef = callable_or embedding_function (DEFAULT_EMBEDDING_FUNCTION lib)
                    in (case invoke (Get_or_create_collection_call client name ef)
                               (get_or_create_collection lib client name ef) w1 of
                          (Inl e, w2) \<Rightarrow> (Inl e, w2)
                        | (Inr collection, w2) \<Rightarrow>
                            (Inr \<lparr>self_max_samples = samples,
                                  self_similarity_threshold = threshold,
                                  self_client_settings = resolved,
                                  self_client = client,
                                  self_persist_directory = persist_directory resolved,
                                  self_embedding_function = ef,
                                  self_docs_collection = collection\<rparr>, w2))))))"

text \<open>
  \<open>[f"{str(uuid.uuid4())}-docs" for _ in docs]\<close>: one fresh identifier per document.
\<close>

fun generate_ids ::
  "('b, 'cl, 'c, 'd, 'm, 'f) chromadb \<Rightarrow> 'a list \<Rightarrow> 'b \<Rightarrow> string list \<times> 'b" where
  "generate_ids lib [] b = ([], b)"
| "generate_ids lib (_ # docs) b =
     (case uuid4 lib b of (u, b1) \<Rightarrow>
        (case generate_ids lib docs b1 of (us, b2) \<Rightarrow> ((u @ ''-docs'') # us, b2)))"

text \<open>
  \<open>ChromaDB.add_docs\<close>, lines 64-88. The body ends after the call of
  \<open>collection.add\<close> and has no \<open>return\<close>: the value of a call that completes is Python's
  \<open>None\<close>, here the \<open>None\<close> of \<open>string list option\<close>.
\<close>

definition add_docs ::
  "('b, 'cl, 'c, 'd, 'm, 'f) chromadb \<Rightarrow> ('cl, 'c, 'd, 'f) ChromaDB \<Rightarrow> string list
     \<Rightarrow> string list option \<Rightarrow> 'm list option \<Rightarrow> ('b, 'cl, 'c, 'm, 'f) world
     \<Rightarrow> (exn + string list option) \<times> ('b, 'cl, 'c, 'm, 'f) world" where
  "add_docs lib self docs ids metadatas w =
     (case (case ids of
              None \<Rightarrow> (case generate_ids lib docs (backend w) of
                          (fresh, b) \<Rightarrow> (fresh, w\<lparr>backend := b\<rparr>))
            | Some given \<Rightarrow> (given, w)) of
        (ids1, w1) \<Rightarrow>
          (case invoke (Add_call (self_docs_collection self) docs metadatas ids1)
                  (collection_add lib (self_docs_collection self) docs metadatas ids1) w1 of
             (Inl e, w2) \<Rightarrow> (Inl e, w2)
           | (Inr _, w2) \<Rightarrow> (Inr None, w2)))"

text \<open>\<open>ChromaDB.delete_docs\<close>, lines 90-108.\<close>

definition delete_docs ::
  "('b, 'cl, 'c, 'd, 'm, 'f) chromadb \<Rightarrow> ('cl, 'c, 'd, 'f) ChromaDB \<Rightarrow> string list option
     \<Rightarrow> 'm option \<Rightarrow> ('b, 'cl, 'c, 'm, 'f) world
     \<Rightarrow> (exn + bool) \<times> ('b, 'cl, 'c, 'm, 'f) world" where
  "delete_docs lib self ids metadata_criteria w =
     (case (case (ids, metadata_criteria) of
              (None, Some criteria) \<Rightarrow>
                (case invoke (Get_call (self_docs_collection self) criteria)
                        (collection_get lib (self_docs_collection self) criteria) w of
                   (Inl e, w1) \<Rightarrow> (Inl e, w1)
                 | (Inr records_to_delete, w1) \<Rightarrow>
                     (case list_comp (\<lambda>record. dict_getitem record ''id'') records_to_delete of
                        Inl e \<Rightarrow> (Inl e, w1)
                      | Inr found \<Rightarrow> (Inr (Some found), w1)))
            | _ \<Rightarrow> (Inr ids, w)) of
        (Inl e, w1) \<Rightarrow> (Inl e, w1)
      | (Inr ids1, w1) \<Rightarrow>
          (case invoke (Delete_call (self_docs_collection self) ids1)
                  (collection_delete lib (self_docs_collection self) ids1) w1 of
             (Inl e, w2) \<Rightarrow> (Inl e, w2)
           | (Inr _, w2) \<Rightarrow> (Inr True, w2)))"

text \<open>\<open>ChromaDB.get_relevant_docs\<close>, lines 110-124.\<close>

definition get_relevant_docs ::
  "('b, 'cl, 'c, 'd::ord, 'm, 'f) chromadb \<Rightarrow> ('cl, 'c, 'd, 'f) ChromaDB \<Rightarrow> string \<Rightarrow> int option
     \<Rightarrow> ('b, 'cl, 'c, 'm, 'f) world
     \<Rightarrow> (exn + (string \<rightharpoonup> ('d, 'm) pyval list list)) \<times> ('b, 'cl, 'c, 'm, 'f) world" where
  "get_relevant_docs lib self question k w =
     (let k1 = int_or k (self_max_samples self)
      in (case invoke
                (Query_call (self_docs_collection self) question k1
                   [''metadatas'', ''documents'', ''distances''])
                (collection_query lib (self_docs_collection self) question k1
                   [''metadatas'', ''documents'', ''distances'']) w of
            (Inl e, w1) \<Rightarrow> (Inl e, w1)
          | (Inr relevant_data, w1) \<Rightarrow>
              (filter_docs_based_on_distance relevant_data (self_similarity_threshold self), w1)))"

text \<open>\<open>ChromaDB.get_relevant_docs_documents\<close>, lines 126-132.\<close>

definition get_relevant_docs_documents ::
  "('b, 'cl, 'c, 'd::ord, 'm, 'f) chromadb \<Rightarrow> ('cl, 'c, 'd, 'f) ChromaDB \<Rightarrow> string \<Rightarrow> int option
     \<Rightarrow> ('b, 'cl, 'c, 'm, 'f) world
     \<Rightarrow> (exn + ('d, 'm) pyval list) \<times> ('b, 'cl, 'c, 'm, 'f) world" where
  "get_relevant_docs_documents lib self question k w =
     (case get_relevant_docs lib self question k w of
        (Inl e, w1) \<Rightarrow> (Inl e, w1)
      | (Inr result, w1) \<Rightarrow>
          (case dict_getitem result ''documents'' of
             Inl e \<Rightarrow> (Inl e, w1)
           | Inr batch \<Rightarrow> (getitem0 batch, w1)))"

section \<open>A scripted backend\<close>

text \<open>
  A backend for worked examples: every call succeeds, \<open>query\<close> and \<open>get\<close> answer with
  fixed replies, nothing is validated, and the \<open>n\<close>-th identifier drawn is a run of
  \<open>n\<close> letters. Its state counts the identifiers drawn.
\<close>

definition scripted ::
  "(real, string) query_result \<Rightarrow> (string \<rightharpoonup> string) list
     \<Rightarrow> (nat, unit, string, real, string, string) chromadb" where
  "scripted reply records =
     \<lparr>chromadb_Client = (\<lambda>cs b. (Inr (), b)),
      get_or_create_collection = (\<lambda>client name ef b. (Inr name, b)),
      collection_add = (\<lambda>c docs metadatas ids b. (Inr (), b)),
      collection_get = (\<lambda>c criteria b. (Inr records, b)),
      collection_delete = (\<lambda>c ids b. (Inr (), b)),
      collection_query = (\<lambda>c question n include b. (Inr reply, b)),
      uuid4 = (\<lambda>b. (replicate (Suc b) CHR ''u'', Suc b)),
      DEFAULT_EMBEDDING_FUNCTION = ''default'',
      default_persist_directory = ''./chroma''\<rparr>"

text \<open>
  The same backend with a meter: after a query its state is the number of results that
  the query asked for.
\<close>

definition metered ::
  "(real, string) query_result \<Rightarrow> (nat, unit, string, real, string, string) chromadb" where
  "metered reply =
     (scripted reply [])
       \<lparr>collection_query := (\<lambda>c question n include b. (Inr reply, nat n))\<rparr>"

definition no_reply :: "(real, string) query_result" where
  "no_reply = \<lparr>qr_documents = [[]], qr_distances = [[]], qr_metadatas = [[]], qr_ids = [[]]\<rparr>"

definition example_store :: "(unit, string, real, string) ChromaDB" where
  "example_store =
     \<lparr>self_max_samples = 3, self_similarity_threshold = 1.5,
      self_client_settings =
        \<lparr>is_persistent = True, anonymized_telemetry = False, persist_directory = ''/data''\<rparr>,
      self_client = (), self_persist_directory = ''/data'',
      self_embedding_function = ''default'', self_docs_collection = ''bamboo-etl''\<rparr>"

definition example_reply :: "(real, string) query_result" where
  "example_reply =
     \<lparr>qr_documents = [[''a'', ''b'', ''c'', ''d'']], qr_distances = [[0.3, 1.5, 0.9, 2.0]],
      qr_metadatas = [[''m1'', ''m2'', ''m3'', ''m4'']], qr_ids = [[''1'', ''2'', ''3'', ''4'']]\<rparr>"

definition empty_batch :: "(real, string) query_result" where
  "empty_batch = \<lparr>qr_documents = [], qr_distances = [], qr_metadatas = [], qr_ids = []\<rparr>"

definition far_reply :: "(real, string) query_result" where
  "far_reply =
     \<lparr>qr_documents = [[''x'', ''y'']], qr_distances = [[1.5, 2.0]],
      qr_metadatas = [[''m1'', ''m2'']], qr_ids = [[''1'', ''2'']]\<rparr>"

definition example_settings :: app_settings where
  "example_settings =
     \<lparr>sqlalchemy_database_url = ''sqlite:///app.db'', upload_dir = ''uploads''\<rparr>"

definition fresh_world :: "(nat, unit, string, string, string) world" where
  "fresh_world = \<lparr>backend = 0, calls = []\<rparr>"

section \<open>Auxiliary notions and lemmas\<close>

text \<open>
  The dictionary whose four columns are the projections of one list of rows. It is the
  closed form of the comprehension that ends the filter.
\<close>

definition columns_of ::
  "(string \<times> 'd \<times> 'm \<times> string) list \<Rightarrow> (string \<rightharpoonup> ('d, 'm) pyval list list)" where
  "columns_of rows =
     [''documents'' \<mapsto> [map (\<lambda>(doc, distance, metadata, ids). Str doc) rows],
      ''distances'' \<mapsto> [map (\<lambda>(doc, distance, metadata, ids). Num distance) rows],
      ''metadatas'' \<mapsto> [map (\<lambda>(doc, distance, metadata, ids). Dict metadata) rows],
      ''ids'' \<mapsto> [map (\<lambda>(doc, distance, metadata, ids). Str ids) rows]]"

lemma list_comp_Inr:
  "(\<And>x. x \<in> set xs \<Longrightarrow> f x = Inr (g x)) \<Longrightarrow> list_comp f xs = Inr (map g xs)"
  by (induction xs) auto

lemma zip4_nth:
  assumes "length as = n" "length bs = n" "length cs = n" "length es = n"
  shows "zip4 as bs cs es = map (\<lambda>i. (as ! i, bs ! i, cs ! i, es ! i)) [0..<n]"
  using assms by (intro nth_equalityI) (auto simp: zip4_def)

lemma filter_zip4:
  assumes "length as = length bs" "length cs = length bs" "length es = length bs"
  shows "filter (\<lambda>(a, b, c, e). b < t) (zip4 as bs cs es)
         = map (\<lambda>i. (as ! i, bs ! i, cs ! i, es ! i)) (retained bs t)"
  using assms
  by (simp add: zip4_nth [where n = "length bs"] filter_map retained_def comp_def)

lemma filter_nothing_below:
  assumes "\<forall>d \<in> set dists. \<not> d < t"
  shows "filter (\<lambda>(doc, distance, metadata, ids). distance < t)
           (zip4 docs dists metas idents) = []"
proof -
  have "b \<in> set dists" if "(a, b, c, e) \<in> set (zip4 docs dists metas idents)" for a b c e
  proof -
    from that have "(b, c, e) \<in> set (zip dists (zip metas idents))"
      unfolding zip4_def by (rule set_zip_rightD)
    then show ?thesis
      by (rule set_zip_leftD)
  qed
  with assms show ?thesis
    by (auto simp: filter_empty_conv)
qed

lemma column_comp:
  "i < 4 \<Longrightarrow> list_comp (\<lambda>data. tuple_getitem data i) rows =
     Inr (map (\<lambda>(doc, distance, metadata, ids).
                 if i = 0 then Str doc else if i = 1 then Num distance
                 else if i = 2 then Dict metadata else Str ids) rows)"
  by (rule list_comp_Inr) (auto split: prod.splits)

lemma enumerate_keys:
  "enumerate 0 [a, b, c, d] = [(0, a), (Suc 0, b), (2, c), (3, d)]"
  by (simp add: enumerate_eq_zip upt_rec numeral_2_eq_2 numeral_3_eq_3)

lemma columns_of_fields:
  "columns_of rows ''documents'' = Some [map (\<lambda>(doc, distance, metadata, ids). Str doc) rows]"
  "columns_of rows ''distances'' = Some [map (\<lambda>(doc, distance, metadata, ids). Num distance) rows]"
  "columns_of rows ''metadatas'' = Some [map (\<lambda>(doc, distance, metadata, ids). Dict metadata) rows]"
  "columns_of rows ''ids'' = Some [map (\<lambda>(doc, distance, metadata, ids). Str ids) rows]"
  by (simp_all add: columns_of_def)

lemma dom_columns_of:
  "dom (columns_of rows) = {''documents'', ''distances'', ''metadatas'', ''ids''}"
  by (auto simp: columns_of_def)

lemma columns_of_map_nth:
  "columns_of (map (\<lambda>i. (as ! i, bs ! i, cs ! i, es ! i)) js) =
     [''documents'' \<mapsto> [map (\<lambda>i. Str (as ! i)) js],
      ''distances'' \<mapsto> [map (\<lambda>i. Num (bs ! i)) js],
      ''metadatas'' \<mapsto> [map (\<lambda>i. Dict (cs ! i)) js],
      ''ids'' \<mapsto> [map (\<lambda>i. Str (es ! i)) js]]"
  by (simp add: columns_of_def comp_def)

text \<open>On a batch with a first element the filter returns, and its value is known.\<close>

lemma filter_docs_rows:
  assumes "qr_documents qr = docs # r1" "qr_distances qr = dists # r2"
    "qr_metadatas qr = metas # r3" "qr_ids qr = idents # r4"
  shows "filter_docs_based_on_distance qr t =
     Inr (columns_of (filter (\<lambda>(doc, distance, metadata, ids). distance < t)
                        (zip4 docs dists metas idents)))"
  using assms
  by (simp add: filter_docs_based_on_distance_def getitem0_def enumerate_keys column_comp
       dict_of_def columns_of_def Let_def)

text \<open>Conversely, the filter returns only on such a batch.\<close>

lemma filter_docs_Inr:
  assumes "filter_docs_based_on_distance qr t = Inr out"
  obtains docs r1 dists r2 metas r3 idents r4 where
    "qr_documents qr = docs # r1" "qr_distances qr = dists # r2"
    "qr_metadatas qr = metas # r3" "qr_ids qr = idents # r4"
    "out = columns_of (filter (\<lambda>(doc, distance, metadata, ids). distance < t)
                         (zip4 docs dists metas idents))"
proof -
  from assms obtain docs r1 dists r2 metas r3 idents r4 where batch:
    "qr_documents qr = docs # r1" "qr_distances qr = dists # r2"
    "qr_metadatas qr = metas # r3" "qr_ids qr = idents # r4"
    by (auto simp: filter_docs_based_on_distance_def getitem0_def split: list.splits)
  with assms filter_docs_rows [OF batch, of t] that show thesis
    by simp
qed

lemma invoke_eq:
  "invoke c f w =
     (fst (f (backend w)), \<lparr>backend = snd (f (backend w)), calls = calls w @ [c]\<rparr>)"
  by (simp add: invoke_def split: prod.splits)

text \<open>What a query that returns has returned.\<close>

lemma get_relevant_docs_Inr:
  assumes "get_relevant_docs lib self question k w = (Inr out, w1)"
  obtains qr docs r1 dists r2 metas r3 idents r4 where
    "fst (collection_query lib (self_docs_collection self) question
            (int_or k (self_max_samples self))
            [''metadatas'', ''documents'', ''distances''] (backend w)) = Inr qr"
    "qr_documents qr = docs # r1" "qr_distances qr = dists # r2"
    "qr_metadatas qr = metas # r3" "qr_ids qr = idents # r4"
    "out = columns_of (filter (\<lambda>(doc, distance, metadata, ids).
                                  distance < self_similarity_threshold self)
                         (zip4 docs dists metas idents))"
proof -
  from assms obtain qr where
    reply: "fst (collection_query lib (self_docs_collection self) question
                   (int_or k (self_max_samples self))
                   [''metadatas'', ''documents'', ''distances''] (backend w)) = Inr qr"
    and out: "filter_docs_based_on_distance qr (self_similarity_threshold self) = Inr out"
    by (auto simp: get_relevant_docs_def invoke_eq Let_def split: sum.splits)
  from out show thesis
  proof (rule filter_docs_Inr)
    fix docs r1 dists r2 metas r3 idents r4
    assume "qr_documents qr = docs # r1" "qr_distances qr = dists # r2"
      "qr_metadatas qr = metas # r3" "qr_ids qr = idents # r4"
      "out = columns_of (filter (\<lambda>(doc, distance, metadata, ids).
                                    distance < self_similarity_threshold self)
                           (zip4 docs dists metas idents))"
    with reply show thesis
      by (rule that)
  qed
qed

text \<open>The constructor's resolution of the client settings, branch by branch.\<close>

lemma init_client_settings_given:
  "init_client_settings lib settings persist_path (Some given) =
     Inr (given\<lparr>persist_directory :=
                   (case persist_path of
                      None \<Rightarrow> persist_directory given
                    | Some path \<Rightarrow> if path = [] then persist_directory given else path)\<rparr>)"
  by (simp add: init_client_settings_def split: option.splits)

lemma init_client_settings_path:
  "path \<noteq> [] \<Longrightarrow> init_client_settings lib settings (Some path) None =
     Inr \<lparr>is_persistent = True, anonymized_telemetry = False, persist_directory = path\<rparr>"
  by (simp add: init_client_settings_def config_Settings_def Let_def)

lemma init_client_settings_default:
  "init_client_settings lib settings None None = Inl (AttributeError ''chromadb_url'')"
  "init_client_settings lib settings (Some []) None = Inl (AttributeError ''chromadb_url'')"
  by (simp_all add: init_client_settings_def settings_getattr_def Let_def)

text \<open>
  Once the settings are resolved, construction completes with the resolved directory
  if both backend calls succeed; a failure of either call is the failure of the
  constructor.
\<close>

lemma ChromaDB_init_resolved:
  assumes "init_client_settings lib settings persist_path client_settings = Inr resolved"
    and "fst (chromadb_Client lib resolved (backend w)) = Inr client"
    and "fst (get_or_create_collection lib client
                (case collection_name of None \<Rightarrow> ''bamboo-etl'' | Some n \<Rightarrow> n)
                (callable_or embedding_function (DEFAULT_EMBEDDING_FUNCTION lib))
                (snd (chromadb_Client lib resolved (backend w)))) = Inr collection"
  shows "\<exists>store w1. ChromaDB_init lib settings collection_name embedding_function persist_path
            client_settings max_samples similary_threshold w = (Inr store, w1) \<and>
          self_client_settings store = resolved \<and>
          self_persist_directory store = persist_directory resolved \<and>
          self_docs_collection store = collection"
  using assms by (simp add: ChromaDB_init_def invoke_eq Let_def)

lemma ChromaDB_init_backend_failure:
  assumes "init_client_settings lib settings persist_path client_settings = Inr resolved"
    and "fst (chromadb_Client lib resolved (backend w)) = Inl e"
  shows "fst (ChromaDB_init lib settings collection_name embedding_function persist_path
            client_settings max_samples similary_threshold w) = Inl e"
  using assms by (simp add: ChromaDB_init_def invoke_eq Let_def)

text \<open>One identifier is generated per document, each ending in \<open>-docs\<close>.\<close>

lemma generate_ids_length: "length (fst (generate_ids lib docs b)) = length docs"
proof (induction docs arbitrary: b)
  case Nil
  then show ?case by simp
next
  case (Cons doc docs)
  obtain u b1 where draw: "uuid4 lib b = (u, b1)"
    by (cases "uuid4 lib b")
  obtain us b2 where rest: "generate_ids lib docs b1 = (us, b2)"
    by (cases "generate_ids lib docs b1")
  from Cons.IH [of b1] rest have "length us = length docs"
    by simp
  with draw rest show ?case
    by simp
qed

lemma add_docs_never_ids:
  "fst (add_docs lib self docs ids metadatas w) \<noteq> Inr (Some result)"
  by (auto simp: add_docs_def invoke_eq split: sum.splits option.splits prod.splits)

section \<open>The distance filter retains exactly the candidates below the threshold\<close>

text \<open>
  Claim C1. On a batch whose first element holds four sequences of one length, the
  filter returns, and each of its four columns lists the entries at exactly the indices
  \<open>i\<close> with \<open>distance[i] < t\<close>, in increasing order of \<open>i\<close>; the same indices are
  used for all four columns. The comparison is strict: an index whose distance equals the
  threshold is not retained.
\<close>

theorem filter_docs_based_on_distance_retains:
  fixes t :: "'d::preorder"
  assumes batch: "qr_documents qr = docs # r1" "qr_distances qr = dists # r2"
      "qr_metadatas qr = metas # r3" "qr_ids qr = idents # r4"
    and aligned: "length docs = length dists" "length metas = length dists"
      "length idents = length dists"
  shows "\<exists>out. filter_docs_based_on_distance qr t = Inr out \<and>
           out ''documents'' = Some [map (\<lambda>i. Str (docs ! i)) (retained dists t)] \<and>
           out ''distances'' = Some [map (\<lambda>i. Num (dists ! i)) (retained dists t)] \<and>
           out ''metadatas'' = Some [map (\<lambda>i. Dict (metas ! i)) (retained dists t)] \<and>
           out ''ids'' = Some [map (\<lambda>i. Str (idents ! i)) (retained dists t)] \<and>
           retained dists t = filter (\<lambda>i. dists ! i < t) [0..<length dists] \<and>
           (\<forall>i < length dists. dists ! i = t \<longrightarrow> i \<notin> set (retained dists t))"
proof -
  have "filter_docs_based_on_distance qr t =
      Inr (columns_of (map (\<lambda>i. (docs ! i, dists ! i, metas ! i, idents ! i))
                         (retained dists t)))"
    using filter_docs_rows [OF batch] filter_zip4 [OF aligned] by simp
  moreover have "\<forall>i < length dists. dists ! i = t \<longrightarrow> i \<notin> set (retained dists t)"
    by (simp add: retained_def)
  ultimately show ?thesis
    by (simp add: columns_of_map_nth retained_def)
qed

theorem filter_docs_based_on_distance_retains_witness:
  "\<exists>out. filter_docs_based_on_distance example_reply 1.5 = Inr out \<and>
     out ''documents'' = Some [[Str ''a'', Str ''c'']] \<and>
     out ''distances'' = Some [[Num 0.3, Num 0.9]] \<and>
     out ''metadatas'' = Some [[Dict ''m1'', Dict ''m3'']] \<and>
     out ''ids'' = Some [[Str ''1'', Str ''3'']]"
  using filter_docs_based_on_distance_retains
    [of example_reply "[''a'', ''b'', ''c'', ''d'']" "[]" "[0.3, 1.5, 0.9, 2.0]" "[]"
      "[''m1'', ''m2'', ''m3'', ''m4'']" "[]" "[''1'', ''2'', ''3'', ''4'']" "[]" "1.5"]
  by (auto simp: example_reply_def retained_def upt_rec)

section \<open>The shape of a query result\<close>

text \<open>
  Claim C2. Whenever \<open>get_relevant_docs\<close> returns, for any question and any \<open>k\<close>, the
  result has exactly the keys documents, distances, metadatas and ids; each value is a
  list with a single inner list; the four inner lists have one length; and they are the
  four projections of one list of rows, namely the rows of the backend's first batch
  element that pass the filter, so entries at one index belong to one candidate.
\<close>

theorem get_relevant_docs_shape:
  assumes "get_relevant_docs lib self question k w = (Inr out, w1)"
  shows "dom out = {''documents'', ''distances'', ''metadatas'', ''ids''} \<and>
     (\<exists>cdocs cdists cmetas cids.
        out ''documents'' = Some [cdocs] \<and> out ''distances'' = Some [cdists] \<and>
        out ''metadatas'' = Some [cmetas] \<and> out ''ids'' = Some [cids] \<and>
        length cdists = length cdocs \<and> length cmetas = length cdocs \<and>
        length cids = length cdocs \<and>
        (\<exists>qr docs r1 dists r2 metas r3 idents r4 rows.
           fst (collection_query lib (self_docs_collection self) question
                  (int_or k (self_max_samples self))
                  [''metadatas'', ''documents'', ''distances''] (backend w)) = Inr qr \<and>
           qr_documents qr = docs # r1 \<and> qr_distances qr = dists # r2 \<and>
           qr_metadatas qr = metas # r3 \<and> qr_ids qr = idents # r4 \<and>
           rows = filter (\<lambda>(doc, distance, metadata, ids).
                            distance < self_similarity_threshold self)
                    (zip4 docs dists metas idents) \<and>
           cdocs = map (\<lambda>(doc, distance, metadata, ids). Str doc) rows \<and>
           cdists = map (\<lambda>(doc, distance, metadata, ids). Num distance) rows \<and>
           cmetas = map (\<lambda>(doc, distance, metadata, ids). Dict metadata) rows \<and>
           cids = map (\<lambda>(doc, distance, metadata, ids). Str ids) rows))"
  using assms
proof (rule get_relevant_docs_Inr)
  fix qr docs r1 dists r2 metas r3 idents r4
  assume reply: "fst (collection_query lib (self_docs_collection self) question
            (int_or k (self_max_samples self))
            [''metadatas'', ''documents'', ''distances''] (backend w)) = Inr qr"
    and batch: "qr_documents qr = docs # r1" "qr_distances qr = dists # r2"
      "qr_metadatas qr = metas # r3" "qr_ids qr = idents # r4"
    and out: "out = columns_of (filter (\<lambda>(doc, distance, metadata, ids).
                                  distance < self_similarity_threshold self)
                         (zip4 docs dists metas idents))"
  let ?rows = "filter (\<lambda>(doc, distance, metadata, ids).
                         distance < self_similarity_threshold self)
                 (zip4 docs dists metas idents)"
  from out have keys: "dom out = {''documents'', ''distances'', ''metadatas'', ''ids''}"
    by (simp add: dom_columns_of)
  from out have columns:
    "out ''documents'' = Some [map (\<lambda>(doc, distance, metadata, ids). Str doc) ?rows]"
    "out ''distances'' = Some [map (\<lambda>(doc, distance, metadata, ids). Num distance) ?rows]"
    "out ''metadatas'' = Some [map (\<lambda>(doc, distance, metadata, ids). Dict metadata) ?rows]"
    "out ''ids'' = Some [map (\<lambda>(doc, distance, metadata, ids). Str ids) ?rows]"
    by (simp_all add: columns_of_fields)
  have origin: "\<exists>qr docs r1 dists r2 metas r3 idents r4 rows.
      fst (collection_query lib (self_docs_collection self) question
             (int_or k (self_max_samples self))
             [''metadatas'', ''documents'', ''distances''] (backend w)) = Inr qr \<and>
      qr_documents qr = docs # r1 \<and> qr_distances qr = dists # r2 \<and>
      qr_metadatas qr = metas # r3 \<and> qr_ids qr = idents # r4 \<and>
      rows = filter (\<lambda>(doc, distance, metadata, ids).
                       distance < self_similarity_threshold self)
               (zip4 docs dists metas idents) \<and>
      map (\<lambda>(doc, distance, metadata, ids). Str doc) ?rows =
        map (\<lambda>(doc, distance, metadata, ids). Str doc) rows \<and>
      map (\<lambda>(doc, distance, metadata, ids). Num distance) ?rows =
        map (\<lambda>(doc, distance, metadata, ids). Num distance) rows \<and>
      map (\<lambda>(doc, distance, metadata, ids). Dict metadata) ?rows =
        map (\<lambda>(doc, distance, metadata, ids). Dict metadata) rows \<and>
      map (\<lambda>(doc, distance, metadata, ids). Str ids) ?rows =
        map (\<lambda>(doc, distance, metadata, ids). Str ids) rows"
    using reply batch by blast
  show ?thesis
    apply (rule conjI)
     apply (rule keys)
    apply (rule exI [where x = "map (\<lambda>(doc, distance, metadata, ids). Str doc) ?rows"])
    apply (rule exI [where x = "map (\<lambda>(doc, distance, metadata, ids). Num distance) ?rows"])
    apply (rule exI [where x = "map (\<lambda>(doc, distance, metadata, ids). Dict metadata) ?rows"])
    apply (rule exI [where x = "map (\<lambda>(doc, distance, metadata, ids). Str ids) ?rows"])
    apply (simp only: columns length_map simp_thms)
    apply (rule origin)
    done
qed

theorem get_relevant_docs_shape_witness:
  "\<exists>out w1. get_relevant_docs (scripted example_reply []) example_store ''q'' (Some 4)
               fresh_world = (Inr out, w1) \<and>
     dom out = {''documents'', ''distances'', ''metadatas'', ''ids''} \<and>
     out ''documents'' = Some [[Str ''a'', Str ''c'']] \<and>
     out ''distances'' = Some [[Num 0.3, Num 0.9]] \<and>
     out ''metadatas'' = Some [[Dict ''m1'', Dict ''m3'']] \<and>
     out ''ids'' = Some [[Str ''1'', Str ''3'']]"
proof -
  have "filter_docs_based_on_distance example_reply 1.5 =
      Inr (columns_of [(''a'', 0.3, ''m1'', ''1''), (''c'', 0.9, ''m3'', ''3'')])"
    using filter_docs_rows [of example_reply "[''a'', ''b'', ''c'', ''d'']" "[]"
        "[0.3, 1.5, 0.9, 2.0]" "[]" "[''m1'', ''m2'', ''m3'', ''m4'']" "[]"
        "[''1'', ''2'', ''3'', ''4'']" "[]" "1.5"]
    by (simp add: example_reply_def zip4_def)
  then have run: "get_relevant_docs (scripted example_reply []) example_store ''q'' (Some 4)
      fresh_world =
      (Inr (columns_of [(''a'', 0.3, ''m1'', ''1''), (''c'', 0.9, ''m3'', ''3'')]),
       \<lparr>backend = 0,
        calls = [Query_call ''bamboo-etl'' ''q'' 4 [''metadatas'', ''documents'', ''distances'']]\<rparr>)"
    by (simp add: get_relevant_docs_def invoke_eq scripted_def example_store_def
        fresh_world_def)
  from get_relevant_docs_shape [OF run] run show ?thesis
    by (simp add: columns_of_fields)
qed

section \<open>Adding documents\<close>

text \<open>
  Claim C3. The claim, the docstring and the annotation \<open>-> List[str]\<close> say that
  \<open>add_docs\<close> returns the ids it used. The body has no \<open>return\<close>: a call with the
  documents \<open>["a"]\<close> and the ids \<open>["1"]\<close> hands both to the backend and returns
  \<open>None\<close>. (By \<open>add_docs_never_ids\<close> no call returns a list of ids.)
\<close>

theorem add_docs_returns_no_ids:
  "add_docs (scripted no_reply []) example_store [''a''] (Some [''1'']) None fresh_world =
     (Inr None, \<lparr>backend = 0, calls = [Add_call ''bamboo-etl'' [''a''] None [''1'']]\<rparr>)"
  by (simp add: add_docs_def invoke_eq scripted_def example_store_def fresh_world_def)

text \<open>
  Claim C4, as amended. \<open>add_docs\<close> compares no lengths. Every call, also one whose
  ids or metadatas differ in length from the documents, and whether ids are given or
  omitted, makes exactly one backend call: \<open>add\<close>, applied to the documents and
  metadatas as given and to the ids given (or, with ids omitted, to one generated id
  per document, on the state left by drawing them). The call fails exactly when that
  backend call raises, with the same exception; its value and the state of the backend
  are those that the backend call leaves.
\<close>

theorem add_docs_delegates_unchecked:
  "add_docs lib self docs ids metadatas w =
     ((case fst (collection_add lib (self_docs_collection self) docs metadatas
                   (case ids of
                      None \<Rightarrow> fst (generate_ids lib docs (backend w))
                    | Some given \<Rightarrow> given)
                   (case ids of
                      None \<Rightarrow> snd (generate_ids lib docs (backend w))
                    | Some given \<Rightarrow> backend w)) of
         Inl e \<Rightarrow> Inl e
       | Inr u \<Rightarrow> Inr None),
      \<lparr>backend =
         snd (collection_add lib (self_docs_collection self) docs metadatas
                (case ids of
                   None \<Rightarrow> fst (generate_ids lib docs (backend w))
                 | Some given \<Rightarrow> given)
                (case ids of
                   None \<Rightarrow> snd (generate_ids lib docs (backend w))
                 | Some given \<Rightarrow> backend w)),
       calls = calls w @ [Add_call (self_docs_collection self) docs metadatas
                            (case ids of
                               None \<Rightarrow> fst (generate_ids lib docs (backend w))
                             | Some given \<Rightarrow> given)]\<rparr>) \<and>
   (\<forall>e. fst (add_docs lib self docs ids metadatas w) = Inl e \<longleftrightarrow>
        fst (collection_add lib (self_docs_collection self) docs metadatas
               (case ids of
                  None \<Rightarrow> fst (generate_ids lib docs (backend w))
                | Some given \<Rightarrow> given)
               (case ids of
                  None \<Rightarrow> snd (generate_ids lib docs (backend w))
                | Some given \<Rightarrow> backend w)) = Inl e) \<and>
   length (fst (generate_ids lib docs (backend w))) = length docs \<and>
   calls (snd (add_docs lib self docs ids metadatas w)) =
     calls w @ [Add_call (self_docs_collection self) docs metadatas
                  (case ids of
                     None \<Rightarrow> fst (generate_ids lib docs (backend w))
                   | Some given \<Rightarrow> given)] \<and>
   (\<forall>e. fst (add_docs lib self docs (Some given) metadatas w) = Inl e \<longleftrightarrow>
        fst (collection_add lib (self_docs_collection self) docs metadatas given (backend w))
          = Inl e) \<and>
   backend (snd (add_docs lib self docs (Some given) metadatas w)) =
     snd (collection_add lib (self_docs_collection self) docs metadatas given (backend w))"
proof -
  have run: "add_docs lib self docs i metadatas w =
     ((case fst (collection_add lib (self_docs_collection self) docs metadatas
                   (case i of
                      None \<Rightarrow> fst (generate_ids lib docs (backend w))
                    | Some given \<Rightarrow> given)
                   (case i of
                      None \<Rightarrow> snd (generate_ids lib docs (backend w))
                    | Some given \<Rightarrow> backend w)) of
         Inl e \<Rightarrow> Inl e
       | Inr u \<Rightarrow> Inr None),
      \<lparr>backend =
         snd (collection_add lib (self_docs_collection self) docs metadatas
                (case i of
                   None \<Rightarrow> fst (generate_ids lib docs (backend w))
                 | Some given \<Rightarrow> given)
                (case i of
                   None \<Rightarrow> snd (generate_ids lib docs (backend w))
                 | Some given \<Rightarrow> backend w)),
       calls = calls w @ [Add_call (self_docs_collection self) docs metadatas
                            (case i of
                               None \<Rightarrow> fst (generate_ids lib docs (backend w))
                             | Some given \<Rightarrow> given)]\<rparr>)" for i
    by (cases i) (auto simp: add_docs_def invoke_eq split: sum.splits prod.splits)
  have fails: "(fst (add_docs lib self docs i metadatas w) = Inl e) =
      (fst (collection_add lib (self_docs_collection self) docs metadatas
              (case i of
                 None \<Rightarrow> fst (generate_ids lib docs (backend w))
               | Some given \<Rightarrow> given)
              (case i of
                 None \<Rightarrow> snd (generate_ids lib docs (backend w))
               | Some given \<Rightarrow> backend w)) = Inl e)" for i e
    unfolding run [of i] by (simp split: sum.splits)
  show ?thesis
    apply (intro conjI allI)
         apply (rule run)
        apply (rule fails)
       apply (rule generate_ids_length)
      apply (simp add: run [of ids])
     apply (simp add: fails [of "Some given"])
    apply (simp add: run [of "Some given"])
    done
qed

text \<open>
  The claim as stated fails: with three documents and two ids the backend \<open>add\<close> is
  called with the mismatched sequences, and on a backend that accepts them the call
  does not fail.
\<close>

theorem add_docs_mismatch_counterexample:
  "\<not> isl (fst (add_docs (scripted no_reply []) example_store [''a'', ''b'', ''c'']
                 (Some [''1'', ''2'']) None fresh_world)) \<and>
   calls (snd (add_docs (scripted no_reply []) example_store [''a'', ''b'', ''c'']
                 (Some [''1'', ''2'']) None fresh_world)) =
     [Add_call ''bamboo-etl'' [''a'', ''b'', ''c''] None [''1'', ''2'']]"
  by (simp add: add_docs_def invoke_eq scripted_def example_store_def fresh_world_def)

section \<open>Deleting documents\<close>

text \<open>
  Claim C5, as amended. When both \<open>ids\<close> and \<open>metadata_criteria\<close> are absent,
  \<open>delete_docs\<close> rejects nothing: it issues exactly one backend call, \<open>delete\<close> with
  \<open>ids=None\<close>, leaves the backend as that call leaves it, returns \<open>True\<close> when the call
  completes and fails with the backend's exception otherwise.
\<close>

theorem delete_docs_no_target_delegates:
  "calls (snd (delete_docs lib self None None w)) =
     calls w @ [Delete_call (self_docs_collection self) None] \<and>
   backend (snd (delete_docs lib self None None w)) =
     snd (collection_delete lib (self_docs_collection self) None (backend w)) \<and>
   fst (delete_docs lib self None None w) =
     (case fst (collection_delete lib (self_docs_collection self) None (backend w)) of
        Inl e \<Rightarrow> Inl e
      | Inr u \<Rightarrow> Inr True)"
  by (simp add: delete_docs_def invoke_eq split: sum.splits)

text \<open>
  The claim as stated fails: the call with neither argument completes with \<open>True\<close>
  after a backend \<open>delete\<close> whose target is unconstrained.
\<close>

theorem delete_docs_no_target_counterexample:
  "delete_docs (scripted no_reply []) example_store None None fresh_world =
     (Inr True, \<lparr>backend = 0, calls = [Delete_call ''bamboo-etl'' None]\<rparr>)"
  by (simp add: delete_docs_def invoke_eq scripted_def example_store_def fresh_world_def)

section \<open>The persistence location\<close>

text \<open>
  Claim C6. With client settings the constructor uses them, their directory replaced
  by a non-empty path argument (\<open>init_client_settings_given\<close>); without them a
  non-empty path argument alone decides (\<open>init_client_settings_path\<close>). With neither,
  the constructor reads \<open>settings.chromadb_url\<close>, a field that \<open>app.config.Settings\<close>
  does not declare: construction raises \<open>AttributeError\<close> before any backend call,
  where the claim says that the configured default location is used.
\<close>

theorem init_default_location_raises:
  "ChromaDB_init (scripted no_reply []) example_settings None None None None None
     (None :: real option) fresh_world =
     (Inl (AttributeError ''chromadb_url''), fresh_world)"
  by (simp add: ChromaDB_init_def init_client_settings_default)

section \<open>Projection to the document texts\<close>

text \<open>
  Claim C7. \<open>get_relevant_docs_documents\<close> fails exactly as \<open>get_relevant_docs\<close> does
  on the same arguments; when \<open>get_relevant_docs\<close> returns, its \<open>documents\<close> field is a
  one-element list and \<open>get_relevant_docs_documents\<close> returns that element, with the
  same effect on the backend; and when the backend's first batch element holds no
  distance below the threshold (in particular no candidate at all), the value is the
  empty list.
\<close>

theorem get_relevant_docs_documents_projection:
  "(\<forall>e w1. get_relevant_docs lib self question k w = (Inl e, w1) \<longrightarrow>
      get_relevant_docs_documents lib self question k w = (Inl e, w1)) \<and>
   (\<forall>out w1. get_relevant_docs lib self question k w = (Inr out, w1) \<longrightarrow>
      (\<exists>texts. out ''documents'' = Some [texts] \<and>
         get_relevant_docs_documents lib self question k w = (Inr texts, w1))) \<and>
   (\<forall>qr b docs r1 dists r2 metas r3 idents r4.
      collection_query lib (self_docs_collection self) question
        (int_or k (self_max_samples self))
        [''metadatas'', ''documents'', ''distances''] (backend w) = (Inr qr, b) \<and>
      qr_documents qr = docs # r1 \<and> qr_distances qr = dists # r2 \<and>
      qr_metadatas qr = metas # r3 \<and> qr_ids qr = idents # r4 \<and>
      (\<forall>d \<in> set dists. \<not> d < self_similarity_threshold self) \<longrightarrow>
      fst (get_relevant_docs_documents lib self question k w) = Inr [])"
proof (intro conjI allI impI)
  fix e w1
  assume "get_relevant_docs lib self question k w = (Inl e, w1)"
  then show "get_relevant_docs_documents lib self question k w = (Inl e, w1)"
    by (simp add: get_relevant_docs_documents_def)
next
  fix out w1
  assume run: "get_relevant_docs lib self question k w = (Inr out, w1)"
  then obtain texts where "out ''documents'' = Some [texts]"
    by (rule get_relevant_docs_Inr) (simp add: columns_of_fields)
  with run show "\<exists>texts. out ''documents'' = Some [texts] \<and>
         get_relevant_docs_documents lib self question k w = (Inr texts, w1)"
    by (simp add: get_relevant_docs_documents_def dict_getitem_def getitem0_def)
next
  fix qr b docs r1 dists r2 metas r3 idents r4
  assume h: "collection_query lib (self_docs_collection self) question
        (int_or k (self_max_samples self))
        [''metadatas'', ''documents'', ''distances''] (backend w) = (Inr qr, b) \<and>
      qr_documents qr = docs # r1 \<and> qr_distances qr = dists # r2 \<and>
      qr_metadatas qr = metas # r3 \<and> qr_ids qr = idents # r4 \<and>
      (\<forall>d \<in> set dists. \<not> d < self_similarity_threshold self)"
  then have "filter_docs_based_on_distance qr (self_similarity_threshold self) =
      Inr (columns_of [])"
    using filter_docs_rows [of qr docs r1 dists r2 metas r3 idents r4
        "self_similarity_threshold self"]
      filter_nothing_below [of dists "self_similarity_threshold self" docs metas idents]
    by simp
  with h show "fst (get_relevant_docs_documents lib self question k w) = Inr []"
    by (simp add: get_relevant_docs_documents_def get_relevant_docs_def invoke_eq Let_def
        dict_getitem_def getitem0_def columns_of_fields)
qed

theorem get_relevant_docs_documents_projection_witness:
  "get_relevant_docs_documents (scripted empty_batch []) example_store ''q'' None fresh_world =
     (Inl IndexError,
      \<lparr>backend = 0,
       calls = [Query_call ''bamboo-etl'' ''q'' 3 [''metadatas'', ''documents'', ''distances'']]\<rparr>) \<and>
   get_relevant_docs_documents (scripted example_reply []) example_store ''q'' None fresh_world =
     (Inr [Str ''a'', Str ''c''],
      \<lparr>backend = 0,
       calls = [Query_call ''bamboo-etl'' ''q'' 3 [''metadatas'', ''documents'', ''distances'']]\<rparr>) \<and>
   fst (get_relevant_docs_documents (scripted far_reply []) example_store ''q'' None fresh_world) =
     Inr []"
proof -
  let ?w = "\<lparr>backend = 0,
       calls = [Query_call ''bamboo-etl'' ''q'' 3 [''metadatas'', ''documents'', ''distances'']]\<rparr>
       :: (nat, unit, string, string, string) world"
  have run1: "get_relevant_docs (scripted empty_batch []) example_store ''q'' None fresh_world =
      (Inl IndexError, ?w)"
    by (simp add: get_relevant_docs_def invoke_eq scripted_def example_store_def
        fresh_world_def filter_docs_based_on_distance_def getitem0_def empty_batch_def)
  have "filter_docs_based_on_distance example_reply 1.5 =
      Inr (columns_of [(''a'', 0.3, ''m1'', ''1''), (''c'', 0.9, ''m3'', ''3'')])"
    using filter_docs_rows [of example_reply "[''a'', ''b'', ''c'', ''d'']" "[]"
        "[0.3, 1.5, 0.9, 2.0]" "[]" "[''m1'', ''m2'', ''m3'', ''m4'']" "[]"
        "[''1'', ''2'', ''3'', ''4'']" "[]" "1.5"]
    by (simp add: example_reply_def zip4_def)
  then have run2: "get_relevant_docs (scripted example_reply []) example_store ''q'' None
      fresh_world =
      (Inr (columns_of [(''a'', 0.3, ''m1'', ''1''), (''c'', 0.9, ''m3'', ''3'')]), ?w)"
    by (simp add: get_relevant_docs_def invoke_eq scripted_def example_store_def
        fresh_world_def)
  have reply3: "collection_query (scripted far_reply []) (self_docs_collection example_store)
        ''q'' (int_or None (self_max_samples example_store))
        [''metadatas'', ''documents'', ''distances''] (backend fresh_world) = (Inr far_reply, 0) \<and>
      qr_documents far_reply = [''x'', ''y''] # [] \<and> qr_distances far_reply = [1.5, 2.0] # [] \<and>
      qr_metadatas far_reply = [''m1'', ''m2''] # [] \<and> qr_ids far_reply = [''1'', ''2''] # [] \<and>
      (\<forall>d \<in> set [1.5, 2.0 :: real]. \<not> d < self_similarity_threshold example_store)"
    by (simp add: scripted_def example_store_def fresh_world_def far_reply_def)
  note t1 = get_relevant_docs_documents_projection
    [of "scripted empty_batch []" example_store "''q''" None fresh_world,
      THEN conjunct1, rule_format, OF run1]
  note t2 = get_relevant_docs_documents_projection
    [of "scripted example_reply []" example_store "''q''" None fresh_world,
      THEN conjunct2, THEN conjunct1, rule_format, OF run2]
  note t3 = get_relevant_docs_documents_projection
    [of "scripted far_reply []" example_store "''q''" None fresh_world,
      THEN conjunct2, THEN conjunct2, rule_format, OF reply3]
  from t1 t2 t3 show ?thesis
    by (simp add: columns_of_fields)
qed

section \<open>The default number of neighbours\<close>

text \<open>
  Claim C8. When \<open>k\<close> is omitted, \<open>get_relevant_docs\<close> makes exactly one backend call:
  \<open>query\<close>, applied to the question with \<open>n_results = max_samples\<close>. Its outcome is
  that call's exception, or the filter of that call's reply, and the backend is left
  as that call leaves it. A store constructed without a \<open>max_samples\<close> argument has
  \<open>max_samples = 3\<close> and so asks the backend for three results.
\<close>

theorem get_relevant_docs_default_k:
  "get_relevant_docs lib self question None w =
     ((case fst (collection_query lib (self_docs_collection self) question
                   (self_max_samples self)
                   [''metadatas'', ''documents'', ''distances''] (backend w)) of
         Inl e \<Rightarrow> Inl e
       | Inr relevant_data \<Rightarrow>
           filter_docs_based_on_distance relevant_data (self_similarity_threshold self)),
      \<lparr>backend =
         snd (collection_query lib (self_docs_collection self) question
                (self_max_samples self)
                [''metadatas'', ''documents'', ''distances''] (backend w)),
       calls = calls w @ [Query_call (self_docs_collection self) question
                            (self_max_samples self)
                            [''metadatas'', ''documents'', ''distances'']]\<rparr>) \<and>
   calls (snd (get_relevant_docs lib self question None w)) =
     calls w @ [Query_call (self_docs_collection self) question (self_max_samples self)
                  [''metadatas'', ''documents'', ''distances'']] \<and>
   (\<forall>store w1. ChromaDB_init lib settings collection_name embedding_function persist_path
        client_settings None similary_threshold w0 = (Inr store, w1) \<longrightarrow>
      self_max_samples store = 3 \<and>
      get_relevant_docs lib store question None w =
        ((case fst (collection_query lib (self_docs_collection store) question 3
                      [''metadatas'', ''documents'', ''distances''] (backend w)) of
            Inl e \<Rightarrow> Inl e
          | Inr relevant_data \<Rightarrow>
              filter_docs_based_on_distance relevant_data (self_similarity_threshold store)),
         \<lparr>backend =
            snd (collection_query lib (self_docs_collection store) question 3
                   [''metadatas'', ''documents'', ''distances''] (backend w)),
          calls = calls w @ [Query_call (self_docs_collection store) question 3
                               [''metadatas'', ''documents'', ''distances'']]\<rparr>) \<and>
      calls (snd (get_relevant_docs lib store question None w)) =
        calls w @ [Query_call (self_docs_collection store) question 3
                     [''metadatas'', ''documents'', ''distances'']])"
proof -
  have run: "get_relevant_docs lib s question None w =
     ((case fst (collection_query lib (self_docs_collection s) question
                   (self_max_samples s)
                   [''metadatas'', ''documents'', ''distances''] (backend w)) of
         Inl e \<Rightarrow> Inl e
       | Inr relevant_data \<Rightarrow>
           filter_docs_based_on_distance relevant_data (self_similarity_threshold s)),
      \<lparr>backend =
         snd (collection_query lib (self_docs_collection s) question
                (self_max_samples s)
                [''metadatas'', ''documents'', ''distances''] (backend w)),
       calls = calls w @ [Query_call (self_docs_collection s) question
                            (self_max_samples s)
                            [''metadatas'', ''documents'', ''distances'']]\<rparr>)" for s
    by (simp add: get_relevant_docs_def invoke_eq Let_def split: sum.splits)
  have three: "self_max_samples store = 3"
    if "ChromaDB_init lib settings collection_name embedding_function persist_path
        client_settings None similary_threshold w0 = (Inr store, w1)" for store w1
    using that
    by (auto simp: ChromaDB_init_def invoke_eq Let_def split: sum.splits)
  show ?thesis
  proof (intro conjI allI impI)
    show "get_relevant_docs lib self question None w =
     ((case fst (collection_query lib (self_docs_collection self) question
                   (self_max_samples self)
                   [''metadatas'', ''documents'', ''distances''] (backend w)) of
         Inl e \<Rightarrow> Inl e
       | Inr relevant_data \<Rightarrow>
           filter_docs_based_on_distance relevant_data (self_similarity_threshold self)),
      \<lparr>backend =
         snd (collection_query lib (self_docs_collection self) question
                (self_max_samples self)
                [''metadatas'', ''documents'', ''distances''] (backend w)),
       calls = calls w @ [Query_call (self_docs_collection self) question
                            (self_max_samples self)
                            [''metadatas'', ''documents'', ''distances'']]\<rparr>)"
      by (rule run)
  next
    show "calls (snd (get_relevant_docs lib self question None w)) =
     calls w @ [Query_call (self_docs_collection self) question (self_max_samples self)
                  [''metadatas'', ''documents'', ''distances'']]"
      by (simp add: run [of self])
  next
    fix store w1
    assume built: "ChromaDB_init lib settings collection_name embedding_function persist_path
        client_settings None similary_threshold w0 = (Inr store, w1)"
    show "self_max_samples store = 3"
      using built by (rule three)
    show "get_relevant_docs lib store question None w =
        ((case fst (collection_query lib (self_docs_collection store) question 3
                      [''metadatas'', ''documents'', ''distances''] (backend w)) of
            Inl e \<Rightarrow> Inl e
          | Inr relevant_data \<Rightarrow>
              filter_docs_based_on_distance relevant_data (self_similarity_threshold store)),
         \<lparr>backend =
            snd (collection_query lib (self_docs_collection store) question 3
                   [''metadatas'', ''documents'', ''distances''] (backend w)),
          calls = calls w @ [Query_call (self_docs_collection store) question 3
                               [''metadatas'', ''documents'', ''distances'']]\<rparr>)"
      using run [of store] three [OF built] by simp
    show "calls (snd (get_relevant_docs lib store question None w)) =
        calls w @ [Query_call (self_docs_collection store) question 3
                     [''metadatas'', ''documents'', ''distances'']]"
      using run [of store] three [OF built] by simp
  qed
qed

theorem get_relevant_docs_default_k_witness:
  "\<exists>store w1. ChromaDB_init (metered no_reply) example_settings None None (Some ''/data'')
        None None (None :: real option) fresh_world = (Inr store, w1) \<and>
     self_max_samples store = 3 \<and>
     backend (snd (get_relevant_docs (metered no_reply) store ''q'' None fresh_world)) = 3 \<and>
     calls (snd (get_relevant_docs (metered no_reply) store ''q'' None fresh_world)) =
       [Query_call ''bamboo-etl'' ''q'' 3 [''metadatas'', ''documents'', ''distances'']]"
proof -
  have built: "ChromaDB_init (metered no_reply) example_settings None None (Some ''/data'')
        None None (None :: real option) fresh_world =
      (Inr example_store,
       \<lparr>backend = 0,
        calls = [Client_call \<lparr>is_persistent = True, anonymized_telemetry = False,
                              persist_directory = ''/data''\<rparr>,
                 Get_or_create_collection_call () ''bamboo-etl'' ''default'']\<rparr>)"
    by (simp add: ChromaDB_init_def init_client_settings_path invoke_eq metered_def
        scripted_def example_store_def fresh_world_def Let_def)
  note t = get_relevant_docs_default_k
    [of "metered no_reply" example_store "''q''" fresh_world example_settings None None
      "Some ''/data''" None "None :: real option" fresh_world,
      THEN conjunct2, THEN conjunct2, rule_format, OF built]
  from built t show ?thesis
    by (simp add: metered_def scripted_def example_store_def fresh_world_def)
qed

section \<open>The result and the target of a deletion\<close>

text \<open>
  Claim C9. A call of \<open>delete_docs\<close> that completes, whether its ids were given or
  looked up from the metadata criteria, returns \<open>True\<close>.
\<close>

theorem delete_docs_returns_True:
  "fst (delete_docs lib self ids metadata_criteria w) = Inr r \<Longrightarrow> r = True"
  by (auto simp: delete_docs_def invoke_eq split: sum.splits option.splits prod.splits)

theorem delete_docs_returns_True_witness:
  "delete_docs (scripted no_reply [[''id'' \<mapsto> ''7''], [''id'' \<mapsto> ''9'']]) example_store None
     (Some ''topic=x'') fresh_world =
     (Inr True,
      \<lparr>backend = 0,
       calls = [Get_call ''bamboo-etl'' ''topic=x'',
                Delete_call ''bamboo-etl'' (Some [''7'', ''9''])]\<rparr>)"
proof -
  have "\<exists>r. delete_docs (scripted no_reply [[''id'' \<mapsto> ''7''], [''id'' \<mapsto> ''9'']]) example_store
      None (Some ''topic=x'') fresh_world =
      (Inr r, \<lparr>backend = 0,
                calls = [Get_call ''bamboo-etl'' ''topic=x'',
                         Delete_call ''bamboo-etl'' (Some [''7'', ''9''])]\<rparr>)"
    by (auto simp: delete_docs_def invoke_eq scripted_def example_store_def fresh_world_def
        dict_getitem_def)
  then obtain r where run: "delete_docs (scripted no_reply [[''id'' \<mapsto> ''7''], [''id'' \<mapsto> ''9'']])
      example_store None (Some ''topic=x'') fresh_world =
      (Inr r, \<lparr>backend = 0,
                calls = [Get_call ''bamboo-etl'' ''topic=x'',
                         Delete_call ''bamboo-etl'' (Some [''7'', ''9''])]\<rparr>)" ..
  then have "fst (delete_docs (scripted no_reply [[''id'' \<mapsto> ''7''], [''id'' \<mapsto> ''9'']])
      example_store None (Some ''topic=x'') fresh_world) = Inr r"
    by simp
  from delete_docs_returns_True [OF this] run show ?thesis
    by simp
qed

text \<open>
  Claim C10. When \<open>ids\<close> is given, \<open>metadata_criteria\<close> has no effect: the call behaves
  as the call without criteria, it issues exactly one backend call, \<open>delete\<close> with the
  given ids (no \<open>get\<close>), and the backend is left as that call leaves it.
\<close>

theorem delete_docs_ids_take_precedence:
  "delete_docs lib self (Some given) metadata_criteria w =
     delete_docs lib self (Some given) None w \<and>
   calls (snd (delete_docs lib self (Some given) metadata_criteria w)) =
     calls w @ [Delete_call (self_docs_collection self) (Some given)] \<and>
   backend (snd (delete_docs lib self (Some given) metadata_criteria w)) =
     snd (collection_delete lib (self_docs_collection self) (Some given) (backend w))"
  by (simp add: delete_docs_def invoke_eq split: sum.splits option.splits)

end
